theory Spec2Isabelle
  imports Main
begin

section \<open>JavaScript strings\<close>

text \<open>
  A JavaScript string is a sequence of UTF-16 code units. The literals of the program
  are ASCII, so \<open>js\<close> turns an Isabelle string literal into the code units of the
  JavaScript literal with the same characters.
\<close>

type_synonym jsstring = "nat list"

definition js :: "string \<Rightarrow> jsstring" where
  "js s = map of_char s"

subsection \<open>The pattern of the connection handler\<close>

text \<open>
  \<^verbatim>\<open>req.url.match(/^\/rtmp\/(.*)$/)\<close>: the pattern has no flags, so \<open>^\<close> and \<open>$\<close> are the
  two ends of the input and \<open>.\<close> is any code unit but a line terminator (LF, CR, U+2028,
  U+2029). The match exists exactly when the URL starts with \<open>/rtmp/\<close> and no line
  terminator follows; \<open>match[1]\<close> is then everything after the prefix. \<open>None\<close> is the
  \<open>null\<close> that \<open>match\<close> returns otherwise.
\<close>

definition line_terminator :: "nat \<Rightarrow> bool" where
  "line_terminator c = (c = 10 \<or> c = 13 \<or> c = 8232 \<or> c = 8233)"

definition match_rtmp :: "jsstring \<Rightarrow> jsstring option" where
  "match_rtmp url =
     (if take 6 url = js ''/rtmp/'' \<and> filter line_terminator (drop 6 url) = []
      then Some (drop 6 url) else None)"

subsection \<open>\<open>decodeURIComponent\<close>\<close>

text \<open>
  The built-in of the language, after the Decode operation of ECMAScript with an empty
  reserved set. A code unit other than \<open>%\<close> is copied. A \<open>%\<close> must be followed by two
  hexadecimal digits, which give an octet. An octet below 128 is the code unit itself;
  any other octet must start a well-formed UTF-8 sequence of two to four octets, each
  further octet escaped in its turn, and the code point decoded from them is appended
  as one code unit, or as a surrogate pair from U+10000 on. Everything else throws
  \<open>URIError\<close>.
\<close>

datatype exception = URIError | ERR_INVALID_ARG_VALUE | Unhandled_error_event string

definition is_hex :: "nat \<Rightarrow> bool" where
  "is_hex c = ((48 \<le> c \<and> c \<le> 57) \<or> (65 \<le> c \<and> c \<le> 70) \<or> (97 \<le> c \<and> c \<le> 102))"

definition hex_value :: "nat \<Rightarrow> nat" where
  "hex_value c = (if c \<le> 57 then c - 48 else if c \<le> 70 then c - 55 else c - 87)"

fun percent_octet :: "jsstring \<Rightarrow> (nat \<times> jsstring) option" where
  "percent_octet (p # a # b # rest) =
     (if p = 37 \<and> is_hex a \<and> is_hex b then Some (16 * hex_value a + hex_value b, rest)
      else None)"
| "percent_octet _ = None"

text \<open>The number of leading one bits of an octet, which is the length of its sequence.\<close>

definition leading_ones :: "nat \<Rightarrow> nat" where
  "leading_ones B =
     (if B < 128 then 0 else if B < 192 then 1 else if B < 224 then 2
      else if B < 240 then 3 else if B < 248 then 4 else 5)"

text \<open>\<open>continuation k s\<close> reads \<open>k\<close> escaped octets of the form \<open>10xxxxxx\<close> from \<open>s\<close>.\<close>

fun continuation :: "nat \<Rightarrow> jsstring \<Rightarrow> (nat list \<times> jsstring) option" where
  "continuation 0 s = Some ([], s)"
| "continuation (Suc k) s =
     (case percent_octet s of
        None \<Rightarrow> None
      | Some (B, r) \<Rightarrow>
          if B div 64 = 2
          then (case continuation k r of
                  None \<Rightarrow> None
                | Some (bs, r') \<Rightarrow> Some (B # bs, r'))
          else None)"

text \<open>
  The code point of a UTF-8 sequence whose further octets are known to be \<open>10xxxxxx\<close>;
  \<open>None\<close> for an overlong form, a surrogate or a value above U+10FFFF.
\<close>

fun utf8_value :: "nat list \<Rightarrow> nat option" where
  "utf8_value [b0, b1] =
     (let V = (b0 - 192) * 64 + (b1 - 128)
      in if 128 \<le> V then Some V else None)"
| "utf8_value [b0, b1, b2] =
     (let V = (b0 - 224) * 4096 + (b1 - 128) * 64 + (b2 - 128)
      in if 2048 \<le> V \<and> \<not> (55296 \<le> V \<and> V \<le> 57343) then Some V else None)"
| "utf8_value [b0, b1, b2, b3] =
     (let V = (b0 - 240) * 262144 + (b1 - 128) * 4096 + (b2 - 128) * 64 + (b3 - 128)
      in if 65536 \<le> V \<and> V \<le> 1114111 then Some V else None)"
| "utf8_value _ = None"

definition code_units :: "nat \<Rightarrow> jsstring" where
  "code_units V =
     (if V < 65536 then [V]
      else [(V - 65536) div 1024 mod 1024 + 55296, (V - 65536) mod 1024 + 56320])"

definition prepend :: "jsstring \<Rightarrow> exception + jsstring \<Rightarrow> exception + jsstring" where
  "prepend S r = (case r of Inl e \<Rightarrow> Inl e | Inr R \<Rightarrow> Inr (S @ R))"

lemma percent_octet_shorter: "percent_octet s = Some (B, r) \<Longrightarrow> length r < length s"
  by (induction s rule: percent_octet.induct) (auto split: if_splits)

lemma continuation_shorter: "continuation k s = Some (bs, r) \<Longrightarrow> length r \<le> length s"
proof (induction k arbitrary: s bs r)
  case 0
  then show ?case by simp
next
  case (Suc k)
  from Suc.prems obtain B r0 bs0 where
    p: "percent_octet s = Some (B, r0)" and c: "continuation k r0 = Some (bs0, r)"
    by (auto split: option.splits if_splits)
  from Suc.IH [OF c] percent_octet_shorter [OF p] show ?case by simp
qed

function decodeURIComponent :: "jsstring \<Rightarrow> exception + jsstring" where
  "decodeURIComponent [] = Inr []"
| "decodeURIComponent (C # s) =
     (if C \<noteq> 37 then prepend [C] (decodeURIComponent s)
      else (case percent_octet (C # s) of
        None \<Rightarrow> Inl URIError
      | Some (B, r) \<Rightarrow>
          if B < 128 then prepend [B] (decodeURIComponent r)
          else if leading_ones B = 1 \<or> 4 < leading_ones B then Inl URIError
          else (case continuation (leading_ones B - 1) r of
            None \<Rightarrow> Inl URIError
          | Some (Octets, r') \<Rightarrow>
              (case utf8_value (B # Octets) of
                 None \<Rightarrow> Inl URIError
               | Some V \<Rightarrow> prepend (code_units V) (decodeURIComponent r')))))"
  by pat_completeness auto
termination
proof (relation "measure length")
  show "wf (measure length)" by simp
next
  fix C :: nat and s :: jsstring
  show "(s, C # s) \<in> measure length" by simp
next
  fix C :: nat and s :: jsstring and x2 B r
  assume "percent_octet (C # s) = Some x2" "(B, r) = x2"
  then have "percent_octet (C # s) = Some (B, r)" by simp
  from percent_octet_shorter [OF this] show "(r, C # s) \<in> measure length" by simp
next
  fix C :: nat and s :: jsstring and x2 B r x2a Octets r'
  assume "percent_octet (C # s) = Some x2" "(B, r) = x2"
    "continuation (leading_ones B - 1) r = Some x2a" "(Octets, r') = x2a"
  then have p: "percent_octet (C # s) = Some (B, r)"
    and c: "continuation (leading_ones B - 1) r = Some (Octets, r')" by simp_all
  from percent_octet_shorter [OF p] continuation_shorter [OF c]
  show "(r', C # s) \<in> measure length" by simp
qed

section \<open>The relay server\<close>

text \<open>
  The server is the handler of the \<open>connection\<close> event of the WebSocket server and the
  five handlers it registers. Their effects are calls on the connection \<open>ws\<close>, on the
  child process \<open>ffmpeg\<close> and on the console, so the state holds, for every connection
  in order of arrival, what was called on its two objects, and the lines logged.
\<close>

type_synonym chunk = "nat list"

datatype emitter = Ws | Ffmpeg | Ffmpeg_stdin | Ffmpeg_stderr

datatype evname = Message | Close | Error | Data

type_synonym listener = "emitter \<times> evname"

text \<open>The object returned by \<open>child_process.spawn\<close>, with the calls made on it.\<close>

record child =
  spawnfile :: jsstring
  spawnargs :: "jsstring list"
  stdin_writes :: "chunk list"
  kill_signals :: "jsstring list"
  exited :: bool

text \<open>
  One inbound connection, which is what the closures of the handlers see:
  \<open>terminated\<close> says that \<open>ws.terminate()\<close> was called, \<open>ws_closed\<close> that the \<open>close\<close>
  event of \<open>ws\<close> was emitted, \<open>listeners\<close> are the listeners registered on \<open>ws\<close>,
  \<open>ffmpeg\<close> and its streams, and \<open>ffmpeg\<close> is the variable of that name, \<open>None\<close>
  until \<open>spawn\<close> is called. In \<open>child\<close>, \<open>exited\<close> says that the \<open>close\<close> event of
  the process was emitted.
\<close>

record conn =
  req_url :: jsstring
  terminated :: bool
  ws_closed :: bool
  listeners :: "listener list"
  ffmpeg :: "child option"

datatype logline =
    Target_RTMP_URL jsstring
  | FFmpeg_closed "int option" "string option"
  | FFmpeg_STDIN_Error string
  | FFmpeg_STDERR chunk
  | DATA chunk

text \<open>A handler runs on its connection and the console.\<close>

type_synonym world = "conn \<times> logline list"

definition new_ws :: "jsstring \<Rightarrow> conn" where
  "new_ws url =
     \<lparr>req_url = url, terminated = False, ws_closed = False, listeners = [], ffmpeg = None\<rparr>"

subsection \<open>The calls the handlers make\<close>

definition update_child :: "(child \<Rightarrow> child) \<Rightarrow> conn \<Rightarrow> conn" where
  "update_child f c = c\<lparr>ffmpeg := map_option f (ffmpeg c)\<rparr>"

fun console_log :: "logline \<Rightarrow> world \<Rightarrow> world" where
  "console_log l (c, out) = (c, out @ [l])"

fun ws_terminate :: "world \<Rightarrow> world" where
  "ws_terminate (c, out) = (c\<lparr>terminated := True\<rparr>, out)"

text \<open>
  \<open>child_process.spawn\<close> checks its arguments before it creates anything: it throws
  \<open>ERR_INVALID_ARG_VALUE\<close> when the file is empty and when the file or an argument
  contains the NUL character. Otherwise it returns the process object; a process that
  cannot be started is reported later, by the \<open>error\<close> event of that object. The limit
  of the operating system on the length of an argument is not part of the model: the
  request line that the HTTP parser accepts is shorter.
\<close>

definition contains_null :: "jsstring \<Rightarrow> bool" where
  "contains_null s = (0 \<in> set s)"

fun spawn :: "jsstring \<Rightarrow> jsstring list \<Rightarrow> world \<Rightarrow> exception + world" where
  "spawn file args (c, out) =
     (if file = [] \<or> list_ex contains_null (file # args) then Inl ERR_INVALID_ARG_VALUE
      else Inr (c\<lparr>ffmpeg := Some \<lparr>spawnfile = file, spawnargs = args,
        stdin_writes = [], kill_signals = [], exited = False\<rparr>\<rparr>, out))"

fun on :: "listener \<Rightarrow> world \<Rightarrow> world" where
  "on l (c, out) = (c\<lparr>listeners := listeners c @ [l]\<rparr>, out)"

fun stdin_write :: "chunk \<Rightarrow> world \<Rightarrow> world" where
  "stdin_write msg (c, out) =
     (update_child (\<lambda>p. p\<lparr>stdin_writes := stdin_writes p @ [msg]\<rparr>) c, out)"

fun kill :: "jsstring \<Rightarrow> world \<Rightarrow> world" where
  "kill signal (c, out) =
     (update_child (\<lambda>p. p\<lparr>kill_signals := kill_signals p @ [signal]\<rparr>) c, out)"

subsection \<open>The handlers\<close>

definition ffmpeg_args :: "jsstring \<Rightarrow> jsstring list" where
  "ffmpeg_args rtmpUrl =
     [js ''-f'', js ''lavfi'', js ''-i'', js ''anullsrc'',
      js ''-i'', js ''-'',
      js ''-shortest'',
      js ''-vcodec'', js ''copy'',
      js ''-acodec'', js ''aac'',
      js ''-f'', js ''flv'',
      rtmpUrl]"

definition on_ffmpeg_close :: "int option \<Rightarrow> string option \<Rightarrow> world \<Rightarrow> world" where
  "on_ffmpeg_close code signal w = ws_terminate (console_log (FFmpeg_closed code signal) w)"

definition on_stdin_error :: "string \<Rightarrow> world \<Rightarrow> world" where
  "on_stdin_error e w = console_log (FFmpeg_STDIN_Error e) w"

definition on_stderr_data :: "chunk \<Rightarrow> world \<Rightarrow> world" where
  "on_stderr_data data w = console_log (FFmpeg_STDERR data) w"

definition on_ws_message :: "chunk \<Rightarrow> world \<Rightarrow> world" where
  "on_ws_message msg w = stdin_write msg (console_log (DATA msg) w)"

definition on_ws_close :: "world \<Rightarrow> world" where
  "on_ws_close w = kill (js ''SIGINT'') w"

text \<open>
  The handler of \<open>connection\<close>. The exceptions of \<open>decodeURIComponent\<close> and of
  \<open>spawn\<close> are not caught, so they are the result of the handler, and what follows the
  throwing call is not run.
\<close>

definition on_connection :: "jsstring \<Rightarrow> world \<Rightarrow> exception + world" where
  "on_connection url w =
     (case match_rtmp url of
        None \<Rightarrow> Inr (ws_terminate w)
      | Some m1 \<Rightarrow>
          (case decodeURIComponent m1 of
             Inl e \<Rightarrow> Inl e
           | Inr rtmpUrl \<Rightarrow>
               (let w1 = console_log (Target_RTMP_URL rtmpUrl) w
                in case spawn (js ''ffmpeg'') (ffmpeg_args rtmpUrl) w1 of
                     Inl e \<Rightarrow> Inl e
                   | Inr w2 \<Rightarrow>
                       (let w3 = on (Ffmpeg, Close) w2;
                            w4 = on (Ffmpeg_stdin, Error) w3;
                            w5 = on (Ffmpeg_stderr, Data) w4;
                            w6 = on (Ws, Message) w5;
                            w7 = on (Ws, Close) w6
                        in Inr w7))))"

subsection \<open>Events\<close>

text \<open>
  What the platform delivers: a new connection with its request URL, and the events of
  the objects of the connection at an index. An event whose object does not exist is no
  event. An event with a listener runs it; an \<open>error\<close> event without one is thrown by
  its emitter, and nothing catches it; any other event without a listener is dropped.
  An exception that nothing catches ends the server process: it is the \<open>Inl\<close> result.
  The listener of an event is the handler that the program registers for it, and the
  \<open>close\<close> event of the connection, or of the process, marks it as closed before its
  listener runs.
\<close>

datatype conn_event =
    Ws_message chunk
  | Ws_close
  | Ffmpeg_close "int option" "string option"
  | Ffmpeg_error string
  | Stdin_error string
  | Stderr_data chunk

datatype event = Connection jsstring | Event nat conn_event

definition emitter_exists :: "emitter \<Rightarrow> conn \<Rightarrow> bool" where
  "emitter_exists em c = (case ffmpeg c of None \<Rightarrow> em = Ws | Some p \<Rightarrow> True)"

definition emit :: "listener \<Rightarrow> string \<Rightarrow> (world \<Rightarrow> world) \<Rightarrow> world \<Rightarrow> exception + world" where
  "emit l e handler w =
     (if emitter_exists (fst l) (fst w)
      then if l \<in> set (listeners (fst w)) then Inr (handler w)
           else if snd l = Error then Inl (Unhandled_error_event e)
           else Inr w
      else Inr w)"

fun deliver :: "conn_event \<Rightarrow> world \<Rightarrow> exception + world" where
  "deliver (Ws_message msg) (c, out) = emit (Ws, Message) [] (on_ws_message msg) (c, out)"
| "deliver Ws_close (c, out) = emit (Ws, Close) [] on_ws_close (c\<lparr>ws_closed := True\<rparr>, out)"
| "deliver (Ffmpeg_close code signal) (c, out) =
     emit (Ffmpeg, Close) [] (on_ffmpeg_close code signal)
       (update_child (\<lambda>p. p\<lparr>exited := True\<rparr>) c, out)"
| "deliver (Ffmpeg_error e) (c, out) = emit (Ffmpeg, Error) e id (c, out)"
| "deliver (Stdin_error e) (c, out) = emit (Ffmpeg_stdin, Error) e (on_stdin_error e) (c, out)"
| "deliver (Stderr_data data) (c, out) =
     emit (Ffmpeg_stderr, Data) [] (on_stderr_data data) (c, out)"

record server =
  conns :: "conn list"
  console :: "logline list"

definition init_server :: server where
  "init_server = \<lparr>conns = [], console = []\<rparr>"

fun step :: "server \<Rightarrow> event \<Rightarrow> exception + server" where
  "step s (Connection url) =
     (case on_connection url (new_ws url, console s) of
        Inl e \<Rightarrow> Inl e
      | Inr (c, out) \<Rightarrow> Inr \<lparr>conns = conns s @ [c], console = out\<rparr>)"
| "step s (Event i ev) =
     (if i < length (conns s)
      then (case deliver ev (conns s ! i, console s) of
              Inl e \<Rightarrow> Inl e
            | Inr (c, out) \<Rightarrow> Inr \<lparr>conns = (conns s)[i := c], console = out\<rparr>)
      else Inr s)"

fun run :: "server \<Rightarrow> event list \<Rightarrow> exception + server" where
  "run s [] = Inr s"
| "run s (ev # evs) = (case step s ev of Inl e \<Rightarrow> Inl e | Inr s' \<Rightarrow> run s' evs)"

text \<open>The chunks that the events deliver on connection \<open>i\<close>, in order of arrival.\<close>

fun received :: "nat \<Rightarrow> event list \<Rightarrow> chunk list" where
  "received i [] = []"
| "received i (Event j (Ws_message msg) # evs) =
     (if j = i then msg # received i evs else received i evs)"
| "received i (ev # evs) = received i evs"

subsection \<open>Sessions\<close>

text \<open>
  The listeners that the handler of \<open>connection\<close> registers, in its order. A connection
  is \<open>coupled\<close> when it has no process and no listener, or a process, these five
  listeners, \<open>terminate\<close> called if the process has closed and a signal sent if the
  connection has closed.
\<close>

definition session_listeners :: "listener list" where
  "session_listeners =
     [(Ffmpeg, Close), (Ffmpeg_stdin, Error), (Ffmpeg_stderr, Data), (Ws, Message), (Ws, Close)]"

definition coupled :: "conn \<Rightarrow> bool" where
  "coupled c =
     (case ffmpeg c of
        None \<Rightarrow> listeners c = []
      | Some p \<Rightarrow> listeners c = session_listeners \<and> (exited p \<longrightarrow> terminated c) \<and>
          (ws_closed c \<longrightarrow> kill_signals p \<noteq> []))"

definition coupled_all :: "server \<Rightarrow> bool" where
  "coupled_all s = (\<forall>i<length (conns s). coupled (conns s ! i))"

section \<open>Properties\<close>

subsection \<open>The handlers on one connection\<close>

lemmas handler_defs = on_ws_message_def on_ws_close_def on_ffmpeg_close_def on_stdin_error_def
  on_stderr_data_def

lemma on_connection_reject:
  "match_rtmp url = None \<Longrightarrow> on_connection url (c, out) = Inr (c\<lparr>terminated := True\<rparr>, out)"
  by (simp add: on_connection_def)

lemma on_connection_throw:
  "match_rtmp url = Some m \<Longrightarrow> decodeURIComponent m = Inl e \<Longrightarrow>
   on_connection url w = Inl e"
  by (simp add: on_connection_def)

lemma spawn_ffmpeg:
  "spawn (js ''ffmpeg'') (ffmpeg_args d) (c, out) =
     (if contains_null d then Inl ERR_INVALID_ARG_VALUE
      else Inr (c\<lparr>ffmpeg := Some \<lparr>spawnfile = js ''ffmpeg'', spawnargs = ffmpeg_args d,
        stdin_writes = [], kill_signals = [], exited = False\<rparr>\<rparr>, out))"
  by (simp add: ffmpeg_args_def js_def contains_null_def)

lemma on_connection_null:
  "match_rtmp url = Some m \<Longrightarrow> decodeURIComponent m = Inr d \<Longrightarrow> contains_null d \<Longrightarrow>
   on_connection url (c, out) = Inl ERR_INVALID_ARG_VALUE"
  by (simp add: on_connection_def spawn_ffmpeg del: spawn.simps)

lemma null_destination_throws:
  "step init_server (Connection (js ''/rtmp/%00'')) = Inl ERR_INVALID_ARG_VALUE"
  by (simp add: on_connection_def match_rtmp_def line_terminator_def js_def is_hex_def
      hex_value_def prepend_def contains_null_def ffmpeg_args_def new_ws_def)

lemma on_connection_accept:
  "match_rtmp url = Some m \<Longrightarrow> decodeURIComponent m = Inr d \<Longrightarrow> \<not> contains_null d \<Longrightarrow>
   on_connection url (new_ws url, out) =
     Inr (\<lparr>req_url = url, terminated = False, ws_closed = False,
           listeners = session_listeners,
           ffmpeg = Some \<lparr>spawnfile = js ''ffmpeg'', spawnargs = ffmpeg_args d,
             stdin_writes = [], kill_signals = [], exited = False\<rparr>\<rparr>,
          out @ [Target_RTMP_URL d])"
  by (simp add: on_connection_def spawn_ffmpeg new_ws_def session_listeners_def Let_def
      del: spawn.simps)

lemma on_connection_coupled:
  "on_connection url (new_ws url, out) = Inr (c, out') \<Longrightarrow> coupled c"
proof (cases "match_rtmp url")
  case None
  assume "on_connection url (new_ws url, out) = Inr (c, out')"
  with on_connection_reject [OF None, of "new_ws url" out] show ?thesis
    by (auto simp: coupled_def new_ws_def)
next
  case (Some m)
  assume a: "on_connection url (new_ws url, out) = Inr (c, out')"
  show ?thesis
  proof (cases "decodeURIComponent m")
    case (Inl e)
    with a on_connection_throw [OF Some Inl] show ?thesis by simp
  next
    case (Inr d)
    show ?thesis
    proof (cases "contains_null d")
      case True
      with a on_connection_null [OF Some Inr True] show ?thesis by simp
    next
      case False
      with a on_connection_accept [OF Some Inr False, of out] show ?thesis
        by (auto simp: coupled_def)
    qed
  qed
qed

lemma deliver_session:
  assumes "coupled c" and "ffmpeg c = Some p"
  shows "deliver (Ws_message msg) (c, out) =
           Inr (c\<lparr>ffmpeg := Some (p\<lparr>stdin_writes := stdin_writes p @ [msg]\<rparr>)\<rparr>, out @ [DATA msg])"
    and "deliver Ws_close (c, out) =
           Inr (c\<lparr>ws_closed := True,
                  ffmpeg := Some (p\<lparr>kill_signals := kill_signals p @ [js ''SIGINT'']\<rparr>)\<rparr>, out)"
    and "deliver (Ffmpeg_close code signal) (c, out) =
           Inr (c\<lparr>ffmpeg := Some (p\<lparr>exited := True\<rparr>), terminated := True\<rparr>,
                out @ [FFmpeg_closed code signal])"
    and "deliver (Ffmpeg_error e) (c, out) = Inl (Unhandled_error_event e)"
    and "deliver (Stdin_error e) (c, out) = Inr (c, out @ [FFmpeg_STDIN_Error e])"
    and "deliver (Stderr_data d) (c, out) = Inr (c, out @ [FFmpeg_STDERR d])"
  using assms
  by (simp_all add: coupled_def emit_def emitter_exists_def session_listeners_def handler_defs
      update_child_def)

lemma deliver_no_session:
  assumes "coupled c" and "ffmpeg c = None"
  shows "deliver ev (c, out) = Inr (if ev = Ws_close then c\<lparr>ws_closed := True\<rparr> else c, out)"
  using assms
  by (cases ev) (simp_all add: coupled_def emit_def emitter_exists_def update_child_def)

lemma deliver_coupled:
  assumes c: "coupled c" and d: "deliver ev (c, out) = Inr (c', out')"
  shows "coupled c'"
proof (cases "ffmpeg c")
  case None
  from d deliver_no_session [OF c None, of ev out] c None show ?thesis
    by (auto simp: coupled_def split: if_splits)
next
  case (Some p)
  from d deliver_session [OF c Some] c Some show ?thesis
    by (cases ev) (auto simp: coupled_def)
qed

subsection \<open>Every reachable connection is coupled\<close>

lemma coupled_init: "coupled_all init_server"
  by (simp add: coupled_all_def init_server_def)

lemma step_coupled:
  assumes w: "coupled_all s" and st: "step s ev = Inr s'"
  shows "coupled_all s'"
proof (cases ev)
  case (Connection url)
  with st obtain c out where o: "on_connection url (new_ws url, console s) = Inr (c, out)"
    and s': "s' = \<lparr>conns = conns s @ [c], console = out\<rparr>"
    by (auto split: sum.splits)
  from on_connection_coupled [OF o] w show ?thesis
    by (auto simp: s' coupled_all_def nth_append less_Suc_eq)
next
  case (Event i cev)
  show ?thesis
  proof (cases "i < length (conns s)")
    case False
    with st Event w show ?thesis by simp
  next
    case True
    with st Event obtain c out where d: "deliver cev (conns s ! i, console s) = Inr (c, out)"
      and s': "s' = \<lparr>conns = (conns s)[i := c], console = out\<rparr>"
      by (auto split: sum.splits)
    from w True have "coupled (conns s ! i)" by (simp add: coupled_all_def)
    from deliver_coupled [OF this d] w True show ?thesis
      by (auto simp: s' coupled_all_def nth_list_update)
  qed
qed

lemma run_coupled: "coupled_all s \<Longrightarrow> run s evs = Inr s' \<Longrightarrow> coupled_all s'"
  by (induction evs arbitrary: s) (auto split: sum.splits dest: step_coupled)

lemma reachable_coupled:
  "run init_server evs = Inr s \<Longrightarrow> i < length (conns s) \<Longrightarrow> coupled (conns s ! i)"
  using run_coupled [OF coupled_init] by (simp add: coupled_all_def)

lemmas eval_defs = js_def match_rtmp_def line_terminator_def on_connection_def new_ws_def
  init_server_def Let_def emit_def emitter_exists_def handler_defs update_child_def is_hex_def
  hex_value_def prepend_def leading_ones_def code_units_def ffmpeg_args_def contains_null_def

subsection \<open>The data pump\<close>

lemma step_received:
  assumes w: "coupled_all s" and i: "i < length (conns s)" and p: "ffmpeg (conns s ! i) = Some p"
    and st: "step s ev = Inr s'"
  shows "i < length (conns s') \<and>
         (\<exists>p'. ffmpeg (conns s' ! i) = Some p' \<and>
               stdin_writes p' @ received i evs = stdin_writes p @ received i (ev # evs))"
proof (cases ev)
  case (Connection url)
  with st obtain c out where "s' = \<lparr>conns = conns s @ [c], console = out\<rparr>"
    by (auto split: sum.splits)
  with i p Connection show ?thesis by (simp add: nth_append)
next
  case (Event j cev)
  show ?thesis
  proof (cases "j < length (conns s)")
    case False
    with st Event i p show ?thesis by (cases cev) auto
  next
    case True
    with st Event obtain c out where d: "deliver cev (conns s ! j, console s) = Inr (c, out)"
      and s': "s' = \<lparr>conns = (conns s)[j := c], console = out\<rparr>"
      by (auto split: sum.splits)
    show ?thesis
    proof (cases "j = i")
      case False
      with i p s' Event show ?thesis by (cases cev) auto
    next
      case same: True
      from w i have "coupled (conns s ! i)" by (simp add: coupled_all_def)
      from deliver_session [OF this p] d same i p s' Event show ?thesis
        by (cases cev) auto
    qed
  qed
qed

lemma run_received:
  assumes "coupled_all s" and "i < length (conns s)" and "ffmpeg (conns s ! i) = Some p"
    and "run s evs = Inr s'"
  shows "i < length (conns s') \<and>
         (\<exists>p'. ffmpeg (conns s' ! i) = Some p' \<and>
               stdin_writes p' = stdin_writes p @ received i evs)"
  using assms
proof (induction evs arbitrary: s p)
  case Nil
  then show ?case by simp
next
  case (Cons ev evs)
  from Cons.prems(4) obtain s1 where st: "step s ev = Inr s1" and r: "run s1 evs = Inr s'"
    by (auto split: sum.splits)
  from step_received [OF Cons.prems(1-3) st, of evs] obtain p1 where
    i1: "i < length (conns s1)" and p1: "ffmpeg (conns s1 ! i) = Some p1"
    and w1: "stdin_writes p1 @ received i evs = stdin_writes p @ received i (ev # evs)"
    by blast
  from Cons.IH [OF step_coupled [OF Cons.prems(1) st] i1 p1 r] w1 show ?case
    by auto
qed

text \<open>
  C1: once a connection has its process, every chunk that arrives on it is passed to
  \<open>ffmpeg.stdin.write\<close> in the handler of its own \<open>message\<close> event, and after any
  further events that the server survives, of this connection and of the others, the
  chunks written are those written before followed by the chunks received, in the order
  of arrival: none is dropped, doubled or moved. The program makes the call whatever
  the state of the stream; while the input of the process is open the call is the write.
\<close>

theorem chunks_written_in_arrival_order:
  assumes "run init_server pre = Inr s" and "i < length (conns s)"
    and "ffmpeg (conns s ! i) = Some p" and "run s evs = Inr s'"
  shows "i < length (conns s') \<and>
         map_option stdin_writes (ffmpeg (conns s' ! i)) = Some (stdin_writes p @ received i evs)"
  using run_received [OF run_coupled [OF coupled_init assms(1)] assms(2-4)]
  by auto

theorem chunks_written_in_arrival_order_witness:
  "run init_server [Connection (js ''/rtmp/x'')] =
     Inr \<lparr>conns = [\<lparr>req_url = js ''/rtmp/x'', terminated = False, ws_closed = False,
                    listeners = session_listeners,
                    ffmpeg = Some \<lparr>spawnfile = js ''ffmpeg'', spawnargs = ffmpeg_args (js ''x''),
                      stdin_writes = [], kill_signals = [], exited = False\<rparr>\<rparr>],
          console = [Target_RTMP_URL (js ''x'')]\<rparr> \<and>
   run \<lparr>conns = [\<lparr>req_url = js ''/rtmp/x'', terminated = False, ws_closed = False,
                    listeners = session_listeners,
                    ffmpeg = Some \<lparr>spawnfile = js ''ffmpeg'', spawnargs = ffmpeg_args (js ''x''),
                      stdin_writes = [], kill_signals = [], exited = False\<rparr>\<rparr>],
          console = [Target_RTMP_URL (js ''x'')]\<rparr>
     [Event 0 (Ws_message [1, 2]), Event 0 (Stderr_data [9]), Event 0 (Ws_message [3])] =
     Inr \<lparr>conns = [\<lparr>req_url = js ''/rtmp/x'', terminated = False, ws_closed = False,
                    listeners = session_listeners,
                    ffmpeg = Some \<lparr>spawnfile = js ''ffmpeg'', spawnargs = ffmpeg_args (js ''x''),
                      stdin_writes = [[1, 2], [3]], kill_signals = [], exited = False\<rparr>\<rparr>],
          console = [Target_RTMP_URL (js ''x''), DATA [1, 2], FFmpeg_STDERR [9], DATA [3]]\<rparr> \<and>
   map_option stdin_writes (ffmpeg (conns
     \<lparr>conns = [\<lparr>req_url = js ''/rtmp/x'', terminated = False, ws_closed = False,
                    listeners = session_listeners,
                    ffmpeg = Some \<lparr>spawnfile = js ''ffmpeg'', spawnargs = ffmpeg_args (js ''x''),
                      stdin_writes = [[1, 2], [3]], kill_signals = [], exited = False\<rparr>\<rparr>],
          console = [Target_RTMP_URL (js ''x''), DATA [1, 2], FFmpeg_STDERR [9], DATA [3]]\<rparr> ! 0)) =
     Some ([] @ received 0
       [Event 0 (Ws_message [1, 2]), Event 0 (Stderr_data [9]), Event 0 (Ws_message [3])])"
proof -
  let ?c = "\<lambda>ws. \<lparr>req_url = js ''/rtmp/x'', terminated = False, ws_closed = False,
                    listeners = session_listeners,
                    ffmpeg = Some \<lparr>spawnfile = js ''ffmpeg'', spawnargs = ffmpeg_args (js ''x''),
                      stdin_writes = ws, kill_signals = [], exited = False\<rparr>\<rparr>"
  let ?s = "\<lparr>conns = [?c []], console = [Target_RTMP_URL (js ''x'')]\<rparr>"
  let ?s' = "\<lparr>conns = [?c [[1, 2], [3]]],
     console = [Target_RTMP_URL (js ''x''), DATA [1, 2], FFmpeg_STDERR [9], DATA [3]]\<rparr>"
  let ?evs = "[Event 0 (Ws_message [1, 2]), Event 0 (Stderr_data [9]), Event 0 (Ws_message [3])]"
  have a: "run init_server [Connection (js ''/rtmp/x'')] = Inr ?s"
    by (simp add: eval_defs session_listeners_def)
  have b: "0 < length (conns ?s)" by simp
  have c: "ffmpeg (conns ?s ! 0) = Some \<lparr>spawnfile = js ''ffmpeg'',
      spawnargs = ffmpeg_args (js ''x''), stdin_writes = [], kill_signals = [], exited = False\<rparr>"
    by simp
  have d: "run ?s ?evs = Inr ?s'"
    by (simp add: eval_defs session_listeners_def)
  from chunks_written_in_arrival_order [OF a b c d] a d show ?thesis
    by simp
qed

subsection \<open>The lifecycle coordinator\<close>

text \<open>
  C2: for every session of a reachable state, the handler of the \<open>close\<close> event of the
  process, whatever the exit code and the signal, logs them and calls \<open>ws.terminate()\<close>
  before it returns; and in every reachable state a session whose process has closed
  has had its connection terminated.
\<close>

theorem process_close_terminates_connection:
  assumes "run init_server evs = Inr s" and "i < length (conns s)"
    and "ffmpeg (conns s ! i) = Some p"
  shows "(exited p \<longrightarrow> terminated (conns s ! i)) \<and>
         step s (Event i (Ffmpeg_close code signal)) =
           Inr \<lparr>conns = (conns s)
                  [i := (conns s ! i)\<lparr>ffmpeg := Some (p\<lparr>exited := True\<rparr>), terminated := True\<rparr>],
                console = console s @ [FFmpeg_closed code signal]\<rparr>"
proof -
  note c = reachable_coupled [OF assms(1,2)]
  from c assms(3) have "exited p \<longrightarrow> terminated (conns s ! i)"
    by (simp add: coupled_def)
  moreover from deliver_session(3) [OF c assms(3)] assms(2)
  have "step s (Event i (Ffmpeg_close code signal)) =
           Inr \<lparr>conns = (conns s)
                  [i := (conns s ! i)\<lparr>ffmpeg := Some (p\<lparr>exited := True\<rparr>), terminated := True\<rparr>],
                console = console s @ [FFmpeg_closed code signal]\<rparr>"
    by simp
  ultimately show ?thesis by simp
qed

theorem process_close_terminates_connection_witness:
  "run init_server [Connection (js ''/rtmp/x''), Event 0 (Ffmpeg_close (Some 1) None)] =
     Inr \<lparr>conns = [\<lparr>req_url = js ''/rtmp/x'', terminated = True, ws_closed = False,
                    listeners = session_listeners,
                    ffmpeg = Some \<lparr>spawnfile = js ''ffmpeg'', spawnargs = ffmpeg_args (js ''x''),
                      stdin_writes = [], kill_signals = [], exited = True\<rparr>\<rparr>],
          console = [Target_RTMP_URL (js ''x''), FFmpeg_closed (Some 1) None]\<rparr> \<and>
   step \<lparr>conns = [\<lparr>req_url = js ''/rtmp/x'', terminated = True, ws_closed = False,
                    listeners = session_listeners,
                    ffmpeg = Some \<lparr>spawnfile = js ''ffmpeg'', spawnargs = ffmpeg_args (js ''x''),
                      stdin_writes = [], kill_signals = [], exited = True\<rparr>\<rparr>],
          console = [Target_RTMP_URL (js ''x''), FFmpeg_closed (Some 1) None]\<rparr>
     (Event 0 (Ffmpeg_close None (Some ''SIGKILL''))) =
     Inr \<lparr>conns = [\<lparr>req_url = js ''/rtmp/x'', terminated = True, ws_closed = False,
                    listeners = session_listeners,
                    ffmpeg = Some \<lparr>spawnfile = js ''ffmpeg'', spawnargs = ffmpeg_args (js ''x''),
                      stdin_writes = [], kill_signals = [], exited = True\<rparr>\<rparr>],
          console = [Target_RTMP_URL (js ''x''), FFmpeg_closed (Some 1) None,
            FFmpeg_closed None (Some ''SIGKILL'')]\<rparr>"
proof -
  let ?p = "\<lparr>spawnfile = js ''ffmpeg'', spawnargs = ffmpeg_args (js ''x''),
    stdin_writes = [], kill_signals = [], exited = True\<rparr>"
  let ?s = "\<lparr>conns = [\<lparr>req_url = js ''/rtmp/x'', terminated = True, ws_closed = False,
      listeners = session_listeners, ffmpeg = Some ?p\<rparr>],
    console = [Target_RTMP_URL (js ''x''), FFmpeg_closed (Some 1) None]\<rparr>"
  have a: "run init_server [Connection (js ''/rtmp/x''), Event 0 (Ffmpeg_close (Some 1) None)] =
      Inr ?s"
    by (simp add: eval_defs session_listeners_def)
  have b: "0 < length (conns ?s)" by simp
  have c: "ffmpeg (conns ?s ! 0) = Some ?p" by simp
  from process_close_terminates_connection [OF a b c, of None "Some ''SIGKILL''"] a
  show ?thesis by simp
qed

text \<open>
  C3: for every session of a reachable state, the handler of the \<open>close\<close> event of the
  connection sends one more signal to the process of the session; and in every
  reachable state, whatever the number of sessions and the order of their events, a
  session whose connection has closed has a process that was sent a signal.
\<close>

theorem peer_close_signals_process:
  assumes "run init_server evs = Inr s" and "i < length (conns s)"
    and "ffmpeg (conns s ! i) = Some p"
  shows "(ws_closed (conns s ! i) \<longrightarrow> kill_signals p \<noteq> []) \<and>
         (\<exists>s' p'. step s (Event i Ws_close) = Inr s' \<and> ws_closed (conns s' ! i) \<and>
            ffmpeg (conns s' ! i) = Some p' \<and>
            length (kill_signals p') = Suc (length (kill_signals p)))"
proof -
  note c = reachable_coupled [OF assms(1,2)]
  from c assms(3) have "ws_closed (conns s ! i) \<longrightarrow> kill_signals p \<noteq> []"
    by (simp add: coupled_def)
  moreover from deliver_session(2) [OF c assms(3)] assms(2)
  have "\<exists>s' p'. step s (Event i Ws_close) = Inr s' \<and> ws_closed (conns s' ! i) \<and>
            ffmpeg (conns s' ! i) = Some p' \<and>
            length (kill_signals p') = Suc (length (kill_signals p))"
    by simp
  ultimately show ?thesis by simp
qed

theorem peer_close_signals_process_witness:
  "run init_server [Connection (js ''/rtmp/x''), Event 0 Ws_close] =
     Inr \<lparr>conns = [\<lparr>req_url = js ''/rtmp/x'', terminated = False, ws_closed = True,
                    listeners = session_listeners,
                    ffmpeg = Some \<lparr>spawnfile = js ''ffmpeg'', spawnargs = ffmpeg_args (js ''x''),
                      stdin_writes = [], kill_signals = [js ''SIGINT''], exited = False\<rparr>\<rparr>],
          console = [Target_RTMP_URL (js ''x'')]\<rparr> \<and>
   (\<exists>s' p'. step \<lparr>conns = [\<lparr>req_url = js ''/rtmp/x'', terminated = False, ws_closed = True,
                    listeners = session_listeners,
                    ffmpeg = Some \<lparr>spawnfile = js ''ffmpeg'', spawnargs = ffmpeg_args (js ''x''),
                      stdin_writes = [], kill_signals = [js ''SIGINT''], exited = False\<rparr>\<rparr>],
          console = [Target_RTMP_URL (js ''x'')]\<rparr> (Event 0 Ws_close) = Inr s' \<and>
      ws_closed (conns s' ! 0) \<and> ffmpeg (conns s' ! 0) = Some p' \<and>
      length (kill_signals p') = Suc (length [js ''SIGINT'']))"
proof -
  let ?p = "\<lparr>spawnfile = js ''ffmpeg'', spawnargs = ffmpeg_args (js ''x''),
    stdin_writes = [], kill_signals = [js ''SIGINT''], exited = False\<rparr>"
  let ?s = "\<lparr>conns = [\<lparr>req_url = js ''/rtmp/x'', terminated = False, ws_closed = True,
      listeners = session_listeners, ffmpeg = Some ?p\<rparr>],
    console = [Target_RTMP_URL (js ''x'')]\<rparr>"
  have a: "run init_server [Connection (js ''/rtmp/x''), Event 0 Ws_close] = Inr ?s"
    by (simp add: eval_defs session_listeners_def)
  have b: "0 < length (conns ?s)" by simp
  have c: "ffmpeg (conns ?s ! 0) = Some ?p" by simp
  from peer_close_signals_process [OF a b c] a
  show ?thesis by simp
qed

text \<open>
  C10: the signal sent when the connection closes is \<open>SIGINT\<close>, and the handler sends it
  without looking at the process: the result is the same whether the process has closed
  or not, and the witness is a session whose process has already closed.
\<close>

theorem close_sends_SIGINT_unconditionally:
  assumes "run init_server evs = Inr s" and "i < length (conns s)"
    and "ffmpeg (conns s ! i) = Some p"
  shows "step s (Event i Ws_close) =
           Inr \<lparr>conns = (conns s)
                  [i := (conns s ! i)\<lparr>ws_closed := True,
                     ffmpeg := Some (p\<lparr>kill_signals := kill_signals p @ [js ''SIGINT'']\<rparr>)\<rparr>],
                console = console s\<rparr>"
  using deliver_session(2) [OF reachable_coupled [OF assms(1,2)] assms(3)] assms(2)
  by simp

theorem close_sends_SIGINT_unconditionally_witness:
  "run init_server [Connection (js ''/rtmp/x''), Event 0 (Ffmpeg_close (Some 0) None)] =
     Inr \<lparr>conns = [\<lparr>req_url = js ''/rtmp/x'', terminated = True, ws_closed = False,
                    listeners = session_listeners,
                    ffmpeg = Some \<lparr>spawnfile = js ''ffmpeg'', spawnargs = ffmpeg_args (js ''x''),
                      stdin_writes = [], kill_signals = [], exited = True\<rparr>\<rparr>],
          console = [Target_RTMP_URL (js ''x''), FFmpeg_closed (Some 0) None]\<rparr> \<and>
   step \<lparr>conns = [\<lparr>req_url = js ''/rtmp/x'', terminated = True, ws_closed = False,
                    listeners = session_listeners,
                    ffmpeg = Some \<lparr>spawnfile = js ''ffmpeg'', spawnargs = ffmpeg_args (js ''x''),
                      stdin_writes = [], kill_signals = [], exited = True\<rparr>\<rparr>],
          console = [Target_RTMP_URL (js ''x''), FFmpeg_closed (Some 0) None]\<rparr>
     (Event 0 Ws_close) =
     Inr \<lparr>conns = [\<lparr>req_url = js ''/rtmp/x'', terminated = True, ws_closed = True,
                    listeners = session_listeners,
                    ffmpeg = Some \<lparr>spawnfile = js ''ffmpeg'', spawnargs = ffmpeg_args (js ''x''),
                      stdin_writes = [], kill_signals = [js ''SIGINT''], exited = True\<rparr>\<rparr>],
          console = [Target_RTMP_URL (js ''x''), FFmpeg_closed (Some 0) None]\<rparr>"
proof -
  let ?p = "\<lparr>spawnfile = js ''ffmpeg'', spawnargs = ffmpeg_args (js ''x''),
    stdin_writes = [], kill_signals = [], exited = True\<rparr>"
  let ?s = "\<lparr>conns = [\<lparr>req_url = js ''/rtmp/x'', terminated = True, ws_closed = False,
      listeners = session_listeners, ffmpeg = Some ?p\<rparr>],
    console = [Target_RTMP_URL (js ''x''), FFmpeg_closed (Some 0) None]\<rparr>"
  have a: "run init_server [Connection (js ''/rtmp/x''), Event 0 (Ffmpeg_close (Some 0) None)] =
      Inr ?s"
    by (simp add: eval_defs session_listeners_def)
  have b: "0 < length (conns ?s)" by simp
  have c: "ffmpeg (conns ?s ! 0) = Some ?p" by simp
  from close_sends_SIGINT_unconditionally [OF a b c] a
  show ?thesis by simp
qed

subsection \<open>The connection acceptor\<close>

text \<open>
  C4: a connection whose request path does not match the pattern is terminated at once;
  no process is spawned, no listener is registered, nothing is logged, and the
  connections already there are left as they are.
\<close>

theorem unmatched_path_rejected:
  assumes "match_rtmp url = None"
  shows "step s (Connection url) =
           Inr \<lparr>conns = conns s @
                  [\<lparr>req_url = url, terminated = True, ws_closed = False, listeners = [],
                    ffmpeg = None\<rparr>],
                console = console s\<rparr>"
  using on_connection_reject [OF assms, of "new_ws url" "console s"]
  by (simp add: new_ws_def)

theorem unmatched_path_rejected_witness:
  "match_rtmp (js ''/nonsense'') = None \<and>
   step init_server (Connection (js ''/nonsense'')) =
     Inr \<lparr>conns = [\<lparr>req_url = js ''/nonsense'', terminated = True, ws_closed = False,
                    listeners = [], ffmpeg = None\<rparr>],
          console = []\<rparr>"
proof -
  have h: "match_rtmp (js ''/nonsense'') = None"
    by (simp add: match_rtmp_def js_def)
  from unmatched_path_rejected [OF h, of init_server] h show ?thesis
    by (simp add: init_server_def)
qed

text \<open>
  C5, as the claim states it, fails on a path that matches and whose suffix is no
  well-formed escape sequence: for \<open>/rtmp/%\<close> the pattern matches, \<open>decodeURIComponent\<close>
  throws, and no process is spawned.
\<close>

theorem malformed_escape_counterexample:
  "match_rtmp (js ''/rtmp/%'') = Some (js ''%'') \<and>
   step init_server (Connection (js ''/rtmp/%'')) = Inl URIError"
  by (simp add: eval_defs)

text \<open>
  C5, amended: for every connection whose request path matches the pattern and whose
  captured suffix \<open>decodeURIComponent\<close> decodes to a string without the NUL character,
  the process is spawned with \<open>ffmpeg\<close> and thirteen fixed arguments followed by the
  decoded string, unchanged, as the last one.
\<close>

theorem decoded_suffix_is_final_argument:
  assumes "match_rtmp url = Some m1" and "decodeURIComponent m1 = Inr rtmpUrl"
    and "\<not> contains_null rtmpUrl"
  shows "step s (Connection url) =
           Inr \<lparr>conns = conns s @
                  [\<lparr>req_url = url, terminated = False, ws_closed = False,
                    listeners = [(Ffmpeg, Close), (Ffmpeg_stdin, Error), (Ffmpeg_stderr, Data),
                      (Ws, Message), (Ws, Close)],
                    ffmpeg = Some \<lparr>spawnfile = js ''ffmpeg'',
                      spawnargs = [js ''-f'', js ''lavfi'', js ''-i'', js ''anullsrc'',
                        js ''-i'', js ''-'', js ''-shortest'', js ''-vcodec'', js ''copy'',
                        js ''-acodec'', js ''aac'', js ''-f'', js ''flv'', rtmpUrl],
                      stdin_writes = [], kill_signals = [], exited = False\<rparr>\<rparr>],
                console = console s @ [Target_RTMP_URL rtmpUrl]\<rparr>"
  using on_connection_accept [OF assms, of "console s"]
  by (simp add: session_listeners_def ffmpeg_args_def)

theorem decoded_suffix_is_final_argument_witness:
  "match_rtmp (js ''/rtmp/rtmp%3A%2F%2Fa%2F%E2%82%AC'') = Some (js ''rtmp%3A%2F%2Fa%2F%E2%82%AC'') \<and>
   decodeURIComponent (js ''rtmp%3A%2F%2Fa%2F%E2%82%AC'') = Inr (js ''rtmp://a/'' @ [8364]) \<and>
   \<not> contains_null (js ''rtmp://a/'' @ [8364]) \<and>
   step init_server (Connection (js ''/rtmp/rtmp%3A%2F%2Fa%2F%E2%82%AC'')) =
     Inr \<lparr>conns =
            [\<lparr>req_url = js ''/rtmp/rtmp%3A%2F%2Fa%2F%E2%82%AC'', terminated = False,
              ws_closed = False,
              listeners = [(Ffmpeg, Close), (Ffmpeg_stdin, Error), (Ffmpeg_stderr, Data),
                (Ws, Message), (Ws, Close)],
              ffmpeg = Some \<lparr>spawnfile = js ''ffmpeg'',
                spawnargs = [js ''-f'', js ''lavfi'', js ''-i'', js ''anullsrc'',
                  js ''-i'', js ''-'', js ''-shortest'', js ''-vcodec'', js ''copy'',
                  js ''-acodec'', js ''aac'', js ''-f'', js ''flv'', js ''rtmp://a/'' @ [8364]],
                stdin_writes = [], kill_signals = [], exited = False\<rparr>\<rparr>],
          console = [Target_RTMP_URL (js ''rtmp://a/'' @ [8364])]\<rparr>"
proof -
  have m: "match_rtmp (js ''/rtmp/rtmp%3A%2F%2Fa%2F%E2%82%AC'') = Some (js ''rtmp%3A%2F%2Fa%2F%E2%82%AC'')"
    by (simp add: match_rtmp_def js_def line_terminator_def)
  have d: "decodeURIComponent (js ''rtmp%3A%2F%2Fa%2F%E2%82%AC'') = Inr (js ''rtmp://a/'' @ [8364])"
    by (simp add: js_def is_hex_def hex_value_def prepend_def leading_ones_def code_units_def
        numeral_2_eq_2)
  have n: "\<not> contains_null (js ''rtmp://a/'' @ [8364])"
    by (simp add: contains_null_def js_def)
  from decoded_suffix_is_final_argument [OF m d n, of init_server] m d n show ?thesis
    by (simp add: init_server_def)
qed

text \<open>
  C8, as the claim states it, fails on the path \<open>/rtmp/\<close>: the group \<open>(.*)\<close> matches the
  empty suffix, which decodes to the empty string, and the process is spawned with the
  empty string as its last argument.
\<close>

theorem empty_destination_counterexample:
  "step init_server (Connection (js ''/rtmp/'')) =
     Inr \<lparr>conns = [\<lparr>req_url = js ''/rtmp/'', terminated = False, ws_closed = False,
                    listeners = [(Ffmpeg, Close), (Ffmpeg_stdin, Error), (Ffmpeg_stderr, Data),
                      (Ws, Message), (Ws, Close)],
                    ffmpeg = Some \<lparr>spawnfile = js ''ffmpeg'',
                      spawnargs = [js ''-f'', js ''lavfi'', js ''-i'', js ''anullsrc'',
                        js ''-i'', js ''-'', js ''-shortest'', js ''-vcodec'', js ''copy'',
                        js ''-acodec'', js ''aac'', js ''-f'', js ''flv'', []],
                      stdin_writes = [], kill_signals = [], exited = False\<rparr>\<rparr>],
          console = [Target_RTMP_URL []]\<rparr>"
  by (simp add: eval_defs)

text \<open>
  C8, amended: a connection gets a process only when its request path matches the
  pattern, and the last argument of the process is then the decoded suffix of the path,
  which may be empty; a connection handled without a process is one whose path does not
  match, and it is terminated.
\<close>

theorem session_only_for_matching_path:
  assumes "step s (Connection url) = Inr s'"
  shows "conns s' = conns s @ [last (conns s')] \<and>
         (case ffmpeg (last (conns s')) of
            None \<Rightarrow> match_rtmp url = None \<and> terminated (last (conns s'))
          | Some p \<Rightarrow>
              (\<exists>m1. match_rtmp url = Some m1 \<and>
                 decodeURIComponent m1 = Inr (last (spawnargs p))))"
proof (cases "match_rtmp url")
  case None
  from assms on_connection_reject [OF None, of "new_ws url" "console s"] None show ?thesis
    by (auto simp: new_ws_def)
next
  case (Some m1)
  show ?thesis
  proof (cases "decodeURIComponent m1")
    case (Inl e)
    from assms on_connection_throw [OF Some Inl, of "(new_ws url, console s)"] show ?thesis
      by simp
  next
    case (Inr d)
    show ?thesis
    proof (cases "contains_null d")
      case True
      from assms on_connection_null [OF Some Inr True, of "new_ws url" "console s"]
      show ?thesis by simp
    next
      case False
      from assms on_connection_accept [OF Some Inr False, of "console s"] Some Inr
      show ?thesis by (auto simp: ffmpeg_args_def)
    qed
  qed
qed

theorem session_only_for_matching_path_witness:
  "step init_server (Connection (js ''/rtmp/'')) =
     Inr \<lparr>conns = [\<lparr>req_url = js ''/rtmp/'', terminated = False, ws_closed = False,
                    listeners = session_listeners,
                    ffmpeg = Some \<lparr>spawnfile = js ''ffmpeg'', spawnargs = ffmpeg_args [],
                      stdin_writes = [], kill_signals = [], exited = False\<rparr>\<rparr>],
          console = [Target_RTMP_URL []]\<rparr> \<and>
   (\<exists>m1. match_rtmp (js ''/rtmp/'') = Some m1 \<and> decodeURIComponent m1 = Inr [])"
proof -
  let ?s' = "\<lparr>conns = [\<lparr>req_url = js ''/rtmp/'', terminated = False, ws_closed = False,
                    listeners = session_listeners,
                    ffmpeg = Some \<lparr>spawnfile = js ''ffmpeg'', spawnargs = ffmpeg_args [],
                      stdin_writes = [], kill_signals = [], exited = False\<rparr>\<rparr>],
          console = [Target_RTMP_URL []]\<rparr>"
  have a: "step init_server (Connection (js ''/rtmp/'')) = Inr ?s'"
    by (simp add: eval_defs session_listeners_def)
  from session_only_for_matching_path [OF a] a show ?thesis
    by (simp add: ffmpeg_args_def)
qed

subsection \<open>Failures\<close>

text \<open>
  C6, as the claim states it, fails where it says that the session is torn down: after
  a chunk and an \<open>error\<close> event of the input stream, the error is logged, the
  connection has not been terminated and the process has been sent no signal.
\<close>

theorem stdin_error_not_torn_down_counterexample:
  "run init_server
     [Connection (js ''/rtmp/x''), Event 0 (Ws_message [0]), Event 0 (Stdin_error ''EPIPE'')] =
     Inr \<lparr>conns = [\<lparr>req_url = js ''/rtmp/x'', terminated = False, ws_closed = False,
                    listeners = [(Ffmpeg, Close), (Ffmpeg_stdin, Error), (Ffmpeg_stderr, Data),
                      (Ws, Message), (Ws, Close)],
                    ffmpeg = Some \<lparr>spawnfile = js ''ffmpeg'', spawnargs = ffmpeg_args (js ''x''),
                      stdin_writes = [[0]], kill_signals = [], exited = False\<rparr>\<rparr>],
          console = [Target_RTMP_URL (js ''x''), DATA [0], FFmpeg_STDIN_Error ''EPIPE'']\<rparr>"
  by (simp add: eval_defs)

text \<open>
  C6, amended: for every session of a reachable state, an \<open>error\<close> event of the input
  stream of the process is handled: it does not end the server, it is logged, and that
  is all the handler does; the session and every other connection are left as they
  are, so the server goes on with the state it had.
\<close>

theorem stdin_error_is_logged_only:
  assumes "run init_server evs = Inr s" and "i < length (conns s)"
    and "ffmpeg (conns s ! i) = Some p"
  shows "step s (Event i (Stdin_error e)) =
           Inr \<lparr>conns = conns s, console = console s @ [FFmpeg_STDIN_Error e]\<rparr>"
  using deliver_session(5) [OF reachable_coupled [OF assms(1,2)] assms(3)] assms(2)
  by simp

theorem stdin_error_is_logged_only_witness:
  "run init_server [Connection (js ''/rtmp/x''), Event 0 (Ws_message [0])] =
     Inr \<lparr>conns = [\<lparr>req_url = js ''/rtmp/x'', terminated = False, ws_closed = False,
                    listeners = session_listeners,
                    ffmpeg = Some \<lparr>spawnfile = js ''ffmpeg'', spawnargs = ffmpeg_args (js ''x''),
                      stdin_writes = [[0]], kill_signals = [], exited = False\<rparr>\<rparr>],
          console = [Target_RTMP_URL (js ''x''), DATA [0]]\<rparr> \<and>
   step \<lparr>conns = [\<lparr>req_url = js ''/rtmp/x'', terminated = False, ws_closed = False,
                    listeners = session_listeners,
                    ffmpeg = Some \<lparr>spawnfile = js ''ffmpeg'', spawnargs = ffmpeg_args (js ''x''),
                      stdin_writes = [[0]], kill_signals = [], exited = False\<rparr>\<rparr>],
          console = [Target_RTMP_URL (js ''x''), DATA [0]]\<rparr>
     (Event 0 (Stdin_error ''EPIPE'')) =
     Inr \<lparr>conns = [\<lparr>req_url = js ''/rtmp/x'', terminated = False, ws_closed = False,
                    listeners = session_listeners,
                    ffmpeg = Some \<lparr>spawnfile = js ''ffmpeg'', spawnargs = ffmpeg_args (js ''x''),
                      stdin_writes = [[0]], kill_signals = [], exited = False\<rparr>\<rparr>],
          console = [Target_RTMP_URL (js ''x''), DATA [0], FFmpeg_STDIN_Error ''EPIPE'']\<rparr>"
proof -
  let ?p = "\<lparr>spawnfile = js ''ffmpeg'', spawnargs = ffmpeg_args (js ''x''),
    stdin_writes = [[0]], kill_signals = [], exited = False\<rparr>"
  let ?s = "\<lparr>conns = [\<lparr>req_url = js ''/rtmp/x'', terminated = False, ws_closed = False,
      listeners = session_listeners, ffmpeg = Some ?p\<rparr>],
    console = [Target_RTMP_URL (js ''x''), DATA [0]]\<rparr>"
  have a: "run init_server [Connection (js ''/rtmp/x''), Event 0 (Ws_message [0])] = Inr ?s"
    by (simp add: eval_defs session_listeners_def)
  have b: "0 < length (conns ?s)" by simp
  have c: "ffmpeg (conns ?s ! 0) = Some ?p" by simp
  from stdin_error_is_logged_only [OF a b c, of "''EPIPE''"] a
  show ?thesis by simp
qed

text \<open>
  C7: a process that cannot be spawned emits \<open>error\<close> on the object that \<open>spawn\<close>
  returned. The program registers no listener for it, so the emitter throws and the
  server ends, where the claim has the failure end the session only.
\<close>

theorem spawn_error_unhandled:
  "run init_server [Connection (js ''/rtmp/x''), Event 0 (Ffmpeg_error ''spawn ffmpeg ENOENT'')] =
     Inl (Unhandled_error_event ''spawn ffmpeg ENOENT'')"
  by (simp add: eval_defs)

subsection \<open>A whole session\<close>

text \<open>
  C9, as the claim states it, fails: the path \<open>/relay/rtmp%3A%2F%2Fhost%2Fapp%2Fkey\<close>
  does not match the pattern of the program, whose prefix is \<open>/rtmp/\<close>; the connection
  is terminated, no process is spawned and the three chunks are written nowhere.
\<close>

theorem relay_path_counterexample:
  "run init_server
     [Connection (js ''/relay/rtmp%3A%2F%2Fhost%2Fapp%2Fkey''),
      Event 0 (Ws_message (replicate 1024 0)), Event 0 (Ws_message (replicate 2048 0)),
      Event 0 (Ws_message (replicate 512 0)), Event 0 Ws_close] =
     Inr \<lparr>conns = [\<lparr>req_url = js ''/relay/rtmp%3A%2F%2Fhost%2Fapp%2Fkey'', terminated = True,
                    ws_closed = True, listeners = [], ffmpeg = None\<rparr>],
          console = []\<rparr>"
  by (simp add: eval_defs)

text \<open>
  C9, amended: a connection to \<open>/rtmp/rtmp%3A%2F%2Fhost%2Fapp%2Fkey\<close> spawns the
  process with the destination \<open>rtmp://host/app/key\<close> as its last argument; three chunks
  of 1024, 2048 and 512 bytes are then written to its input, these three in this order,
  no signal being sent so far; and when the connection closes \<open>SIGINT\<close> is sent to the
  process.
\<close>

theorem rtmp_scenario:
  assumes "length c1 = 1024" and "length c2 = 2048" and "length c3 = 512"
  shows "run init_server
           [Connection (js ''/rtmp/rtmp%3A%2F%2Fhost%2Fapp%2Fkey''),
            Event 0 (Ws_message c1), Event 0 (Ws_message c2), Event 0 (Ws_message c3)] =
           Inr \<lparr>conns = [\<lparr>req_url = js ''/rtmp/rtmp%3A%2F%2Fhost%2Fapp%2Fkey'',
                    terminated = False, ws_closed = False, listeners = session_listeners,
                    ffmpeg = Some \<lparr>spawnfile = js ''ffmpeg'',
                      spawnargs = ffmpeg_args (js ''rtmp://host/app/key''),
                      stdin_writes = [c1, c2, c3], kill_signals = [], exited = False\<rparr>\<rparr>],
                console = [Target_RTMP_URL (js ''rtmp://host/app/key''),
                  DATA c1, DATA c2, DATA c3]\<rparr> \<and>
         run init_server
           [Connection (js ''/rtmp/rtmp%3A%2F%2Fhost%2Fapp%2Fkey''),
            Event 0 (Ws_message c1), Event 0 (Ws_message c2), Event 0 (Ws_message c3),
            Event 0 Ws_close] =
           Inr \<lparr>conns = [\<lparr>req_url = js ''/rtmp/rtmp%3A%2F%2Fhost%2Fapp%2Fkey'',
                    terminated = False, ws_closed = True, listeners = session_listeners,
                    ffmpeg = Some \<lparr>spawnfile = js ''ffmpeg'',
                      spawnargs = ffmpeg_args (js ''rtmp://host/app/key''),
                      stdin_writes = [c1, c2, c3], kill_signals = [js ''SIGINT''],
                      exited = False\<rparr>\<rparr>],
                console = [Target_RTMP_URL (js ''rtmp://host/app/key''),
                  DATA c1, DATA c2, DATA c3]\<rparr> \<and>
         last (ffmpeg_args (js ''rtmp://host/app/key'')) = js ''rtmp://host/app/key'' \<and>
         map length [c1, c2, c3] = [1024, 2048, 512]"
  using assms by (simp add: eval_defs session_listeners_def)

theorem rtmp_scenario_witness:
  "length (replicate 1024 (0::nat)) = 1024 \<and> length (replicate 2048 (0::nat)) = 2048 \<and>
   length (replicate 512 (0::nat)) = 512 \<and>
   run init_server
     [Connection (js ''/rtmp/rtmp%3A%2F%2Fhost%2Fapp%2Fkey''),
      Event 0 (Ws_message (replicate 1024 0)), Event 0 (Ws_message (replicate 2048 0)),
      Event 0 (Ws_message (replicate 512 0)), Event 0 Ws_close] =
     Inr \<lparr>conns = [\<lparr>req_url = js ''/rtmp/rtmp%3A%2F%2Fhost%2Fapp%2Fkey'',
              terminated = False, ws_closed = True, listeners = session_listeners,
              ffmpeg = Some \<lparr>spawnfile = js ''ffmpeg'',
                spawnargs = ffmpeg_args (js ''rtmp://host/app/key''),
                stdin_writes = [replicate 1024 0, replicate 2048 0, replicate 512 0],
                kill_signals = [js ''SIGINT''], exited = False\<rparr>\<rparr>],
          console = [Target_RTMP_URL (js ''rtmp://host/app/key''),
            DATA (replicate 1024 0), DATA (replicate 2048 0), DATA (replicate 512 0)]\<rparr>"
proof -
  have h: "length (replicate 1024 (0::nat)) = 1024" "length (replicate 2048 (0::nat)) = 2048"
    "length (replicate 512 (0::nat)) = 512"
    by simp_all
  from rtmp_scenario [OF h] h show ?thesis by simp
qed

end
